theory Spec2Isabelle
  imports Main "HOL-Library.Word" "HOL-Library.Sublist"
begin

section \<open>Python values and exceptions\<close>

text \<open>
  The exceptions the three modules raise or let through. \<^verbatim>\<open>except Exception\<close> catches the
  instances of \<^verbatim>\<open>Exception\<close> only: \<^verbatim>\<open>SystemExit\<close> and \<^verbatim>\<open>KeyboardInterrupt\<close> derive from
  \<^verbatim>\<open>BaseException\<close> directly and pass through such a handler.
\<close>

datatype exc =
    ValueError string
  | AttributeError string
  | OtherException string
  | SystemExit string
  | KeyboardInterrupt
  | OtherBaseException string

fun is_Exception :: "exc \<Rightarrow> bool" where
  "is_Exception (ValueError _) = True"
| "is_Exception (AttributeError _) = True"
| "is_Exception (OtherException _) = True"
| "is_Exception (SystemExit _) = False"
| "is_Exception KeyboardInterrupt = False"
| "is_Exception (OtherBaseException _) = False"

text \<open>
  \<^verbatim>\<open>str.lower\<close> on the ASCII letters; a \<^typ>\<open>char\<close> is a byte of the UTF-8 text. It is used for
  one thing, the comparison with the four ASCII tokens of the command line, and no text with
  a byte outside ASCII lowers to one of them.
\<close>

definition lower_char :: "char \<Rightarrow> char" where
  "lower_char c =
     (case map_of (zip ''ABCDEFGHIJKLMNOPQRSTUVWXYZ'' ''abcdefghijklmnopqrstuvwxyz'') c of
        None \<Rightarrow> c | Some d \<Rightarrow> d)"

definition lower :: "string \<Rightarrow> string" where
  "lower s = map lower_char s"

section \<open>Paths and dynamic values\<close>

text \<open>
  A \<^verbatim>\<open>pathlib.Path\<close> of the POSIX flavour: its root (empty, one slash, or two slashes when
  the text starts with exactly two) and its parts. \<^verbatim>\<open>Path(s)\<close> splits at the slashes and drops
  empty and \<^verbatim>\<open>.\<close> components, \<^verbatim>\<open>str\<close> joins the parts again, and \<^verbatim>\<open>p / s\<close> appends the parts of
  a relative \<open>s\<close>.
\<close>

datatype Path = Path (root: string) (parts: "string list")

fun split_slash :: "string \<Rightarrow> string list" where
  "split_slash [] = [[]]"
| "split_slash (c # cs) =
     (if c = CHR ''/'' then [] # split_slash cs
      else (case split_slash cs of [] \<Rightarrow> [[c]] | w # ws \<Rightarrow> (c # w) # ws))"

fun join_slash :: "string list \<Rightarrow> string" where
  "join_slash [] = []"
| "join_slash [p] = p"
| "join_slash (p # q # ps) = p @ ''/'' @ join_slash (q # ps)"

definition root_of_str :: "string \<Rightarrow> string" where
  "root_of_str s =
     (if take 2 s = ''//'' \<and> take 3 s \<noteq> ''///'' then ''//''
      else if take 1 s = ''/'' then ''/'' else [])"

definition Path_of_str :: "string \<Rightarrow> Path" where
  "Path_of_str s = Path (root_of_str s) (filter (\<lambda>p. p \<noteq> [] \<and> p \<noteq> ''.'') (split_slash s))"

definition str_of_Path :: "Path \<Rightarrow> string" where
  "str_of_Path p =
     (if root p = [] \<and> parts p = [] then ''.'' else root p @ join_slash (parts p))"

definition joinpath :: "Path \<Rightarrow> string \<Rightarrow> Path" where
  "joinpath p s =
     (let q = Path_of_str s
      in if root q \<noteq> [] then q else Path (root p) (parts p @ parts q))"



text \<open>The objects the orchestrator builds; each is opaque to it.\<close>

datatype obj = DroneConnection | DroneLogs | SwarmCommand | DetectorRT | Thread | Command

text \<open>
  The values that \<^verbatim>\<open>_safe_asdict\<close> (typed \<^verbatim>\<open>Any\<close>) can meet. A float is its 64 bits; a
  dictionary keeps its insertion order; \<open>PyJson v\<close> is the text \<^verbatim>\<open>json.dumps(v, indent=2)\<close>,
  known by the value it encodes.
\<close>

datatype pyval =
    PyNone
  | PyBool bool
  | PyInt int
  | PyFloat "64 word"
  | PyStr string
  | PyPath Path
  | PyList "pyval list"
  | PyTuple "pyval list"
  | PyDict "(string \<times> pyval) list"
  | PyDataclass string "(string \<times> pyval) list"
  | PyObj obj
  | PyJson pyval

definition py_opt :: "('a \<Rightarrow> pyval) \<Rightarrow> 'a option \<Rightarrow> pyval" where
  "py_opt f x = (case x of None \<Rightarrow> PyNone | Some v \<Rightarrow> f v)"

section \<open>config/settings.py\<close>

record RunSettings =
  project_root :: Path
  logs_dir :: Path
  data_dir :: Path
  cache_dir :: Path
  log_level :: string

record RadioSettings =
  uri_by_channel :: "(string \<times> string) list"

record SwarmSettings =
  enabled :: bool
  channels :: "string list option"

record VisionSettings =
  enabled :: bool
  control_enabled :: bool
  camera_index :: "int option"
  camera_url :: "string option"
  aruco_dict_name :: string
  marker_size_m :: "64 word"
  show_window :: bool

record FeatureFlags =
  waypoints :: bool

record Settings =
  mode :: string
  dry_run :: bool
  run :: RunSettings
  radio :: RadioSettings
  swarm :: SwarmSettings
  vision :: VisionSettings
  features :: FeatureFlags
  uri :: "string option"

text \<open>The same dataclass instances as dynamic values, field by field in declaration order.\<close>

definition RunSettings_obj :: "RunSettings \<Rightarrow> pyval" where
  "RunSettings_obj r = PyDataclass ''RunSettings''
     [(''project_root'', PyPath (project_root r)),
      (''logs_dir'', PyPath (logs_dir r)),
      (''data_dir'', PyPath (data_dir r)),
      (''cache_dir'', PyPath (cache_dir r)),
      (''log_level'', PyStr (RunSettings.log_level r))]"

definition RadioSettings_obj :: "RadioSettings \<Rightarrow> pyval" where
  "RadioSettings_obj r = PyDataclass ''RadioSettings''
     [(''uri_by_channel'', PyDict (map (\<lambda>kv. (fst kv, PyStr (snd kv))) (uri_by_channel r)))]"

definition SwarmSettings_obj :: "SwarmSettings \<Rightarrow> pyval" where
  "SwarmSettings_obj w = PyDataclass ''SwarmSettings''
     [(''enabled'', PyBool (SwarmSettings.enabled w)),
      (''channels'', py_opt (\<lambda>cs. PyList (map PyStr cs)) (SwarmSettings.channels w))]"

definition VisionSettings_obj :: "VisionSettings \<Rightarrow> pyval" where
  "VisionSettings_obj v = PyDataclass ''VisionSettings''
     [(''enabled'', PyBool (VisionSettings.enabled v)),
      (''control_enabled'', PyBool (control_enabled v)),
      (''camera_index'', py_opt PyInt (camera_index v)),
      (''camera_url'', py_opt PyStr (camera_url v)),
      (''aruco_dict_name'', PyStr (aruco_dict_name v)),
      (''marker_size_m'', PyFloat (marker_size_m v)),
      (''show_window'', PyBool (show_window v))]"

definition FeatureFlags_obj :: "FeatureFlags \<Rightarrow> pyval" where
  "FeatureFlags_obj f = PyDataclass ''FeatureFlags'' [(''waypoints'', PyBool (FeatureFlags.waypoints f))]"

definition Settings_obj :: "Settings \<Rightarrow> pyval" where
  "Settings_obj s = PyDataclass ''Settings''
     [(''mode'', PyStr (Settings.mode s)),
      (''dry_run'', PyBool (Settings.dry_run s)),
      (''run'', RunSettings_obj (Settings.run s)),
      (''radio'', RadioSettings_obj (radio s)),
      (''swarm'', SwarmSettings_obj (swarm s)),
      (''vision'', VisionSettings_obj (vision s)),
      (''features'', FeatureFlags_obj (features s)),
      (''uri'', py_opt PyStr (uri s))]"

section \<open>config/__init__.py\<close>

text \<open>
  What \<^verbatim>\<open>load_settings_from_env\<close> takes from outside the repository: the process environment
  as it is after \<^verbatim>\<open>load_dotenv()\<close>, the project root that \<^verbatim>\<open>_project_root()\<close> resolves, and the
  interpreter's own \<^verbatim>\<open>str.strip\<close>, \<^verbatim>\<open>str.upper\<close>, \<^verbatim>\<open>int\<close> and \<^verbatim>\<open>float\<close> (the two conversions raise
  \<^verbatim>\<open>ValueError\<close> on a malformed text). They are parameters: nothing below depends on which
  characters the interpreter counts as whitespace or how it maps letters.
\<close>

record process =
  environ :: "string \<Rightarrow> string option"
  root_dir :: Path
  strip :: "string \<Rightarrow> string"
  upper :: "string \<Rightarrow> string"
  int_of_str :: "string \<Rightarrow> exc + int"
  float_of_str :: "string \<Rightarrow> exc + 64 word"

definition getenv :: "process \<Rightarrow> string \<Rightarrow> string \<Rightarrow> string" where
  "getenv P k d = (case environ P k of None \<Rightarrow> d | Some v \<Rightarrow> v)"

text \<open>\<^verbatim>\<open>x or None\<close> on a string: the empty string is falsy.\<close>

definition or_None :: "string \<Rightarrow> string option" where
  "or_None s = (if s \<noteq> [] then Some s else None)"

definition dict_get :: "(string \<times> string) list \<Rightarrow> string \<Rightarrow> string \<Rightarrow> string" where
  "dict_get d k dflt = (case map_of d k of None \<Rightarrow> dflt | Some v \<Rightarrow> v)"

definition load_settings_from_env ::
  "process \<Rightarrow> string \<Rightarrow> bool \<Rightarrow> string option \<Rightarrow> string list option \<Rightarrow> bool \<Rightarrow> bool \<Rightarrow> bool
     \<Rightarrow> string option \<Rightarrow> exc + Settings" where
  "load_settings_from_env P = (\<lambda>mode dry_run channel channels vision control waypoints log_level.
     (let root = root_dir P;
          logs_dir = Path_of_str (getenv P ''NEST_LOGS_DIR'' (str_of_Path (joinpath root ''logs'')));
          data_dir = Path_of_str (getenv P ''NEST_DATA_DIR'' (str_of_Path (joinpath root ''data'')));
          cache_dir = Path_of_str (getenv P ''NEST_CACHE_DIR'' (str_of_Path (joinpath root ''cache'')));
          uri_by_channel =
            [(''7'', strip P (getenv P ''RADIO_CHANNEL_7'' '''')),
             (''8'', strip P (getenv P ''RADIO_CHANNEL_8'' '''')),
             (''9'', strip P (getenv P ''RADIO_CHANNEL_9'' ''''))];
          run = \<lparr>project_root = root, logs_dir = logs_dir, data_dir = data_dir, cache_dir = cache_dir,
                 RunSettings.log_level =
                   upper P (case log_level of
                            None \<Rightarrow> getenv P ''NEST_LOG_LEVEL'' ''INFO''
                          | Some l \<Rightarrow> if l \<noteq> [] then l else getenv P ''NEST_LOG_LEVEL'' ''INFO'')\<rparr>;
          radio = \<lparr>uri_by_channel = uri_by_channel\<rparr>;
          swarm = \<lparr>SwarmSettings.enabled = (mode = ''swarm''),
                   SwarmSettings.channels = (if mode = ''swarm'' then channels else None)\<rparr>;
          cam_index_env = strip P (getenv P ''NEST_CAMERA_INDEX'' '''')
      in
      case (if cam_index_env \<noteq> [] then map_sum id Some (int_of_str P cam_index_env) else Inr None) of
        Inl e \<Rightarrow> Inl e
      | Inr cam \<Rightarrow>
         (let camera_index = cam;
              camera_url = or_None (strip P (getenv P ''NEST_CAMERA_URL'' ''''))
          in
          case float_of_str P (getenv P ''NEST_MARKER_SIZE_M'' ''0.040'') of
            Inl e \<Rightarrow> Inl e
          | Inr marker \<Rightarrow>
             (let vision_settings =
                    \<lparr>VisionSettings.enabled = vision, control_enabled = control,
                     camera_index = camera_index, camera_url = camera_url,
                     aruco_dict_name = getenv P ''NEST_ARUCO_DICT'' ''DICT_4X4_50'',
                     marker_size_m = marker,
                     show_window =
                       (getenv P ''NEST_VISION_SHOW_WINDOW'' ''1'' \<notin> {''0'', ''false'', ''False''})\<rparr>;
                  features = \<lparr>FeatureFlags.waypoints = waypoints\<rparr>
              in
              case (if mode = ''radio'' then
                      (case channel of
                         None \<Rightarrow> Inl (ValueError ''mode=radio requires channel'')
                       | Some c \<Rightarrow>
                           if c = [] then Inl (ValueError ''mode=radio requires channel'')
                           else (let uri = or_None (strip P (dict_get uri_by_channel c ''''))
                                 in if \<not> dry_run \<and> uri = None
                                    then Inl (ValueError (''No URI configured for channel='' @ c
                                            @ ''. Set RADIO_CHANNEL_'' @ c @ '' in .env''))
                                    else Inr uri))
                    else Inr None) of
                Inl e \<Rightarrow> Inl e
              | Inr uri_radio \<Rightarrow>
                 (case (if mode = ''udp'' then
                          (let uri = or_None (strip P (getenv P ''CF_URI_UDP'' ''''))
                           in if \<not> dry_run \<and> uri = None
                              then Inl (ValueError ''No CF_URI_UDP configured for udp mode.'')
                              else Inr uri)
                        else Inr uri_radio) of
                    Inl e \<Rightarrow> Inl e
                  | Inr u \<Rightarrow>
                      Inr \<lparr>Settings.mode = mode, Settings.dry_run = dry_run, run = run, radio = radio,
                           swarm = swarm, vision = vision_settings, features = features,
                           uri = u\<rparr>)))))"

section \<open>cli/main.py\<close>

definition EXTRA_TOKENS :: "string set" where
  "EXTRA_TOKENS = {''vision'', ''control'', ''waypoint'', ''waypoints''}"

record CliArgs =
  mode :: string
  channel :: "string option"
  channels :: "string list option"
  vision :: bool
  control :: bool
  waypoints :: bool
  dry_run :: bool
  log_level :: "string option"

text \<open>
  The \<^verbatim>\<open>argparse.Namespace\<close> that \<^verbatim>\<open>build_parser().parse_args(argv)\<close> returns. An attribute
  that the chosen subparser does not define is \<open>None\<close> here, which is where \<^verbatim>\<open>getattr\<close> takes
  its default.
\<close>

record Namespace =
  mode :: string
  dry_run :: bool
  log_level :: "string option"
  channel :: "string option"
  channels :: "string list option"
  vision :: "bool option"
  control :: "bool option"
  waypoints :: "bool option"
  extras :: "string list option"

definition parse_extras :: "string list \<Rightarrow> exc + (bool \<times> bool \<times> bool)" where
  "parse_extras es =
     (let s = set (map lower es);
          vision = (''vision'' \<in> s);
          control = (''control'' \<in> s);
          waypoints = (''waypoint'' \<in> s \<or> ''waypoints'' \<in> s)
      in if control \<and> \<not> vision
         then Inl (ValueError ''`control` requires `vision` (click-to-go needs vision).'')
         else Inr (vision, control, waypoints))"

definition getattr_bool :: "bool option \<Rightarrow> bool" where
  "getattr_bool a = (case a of None \<Rightarrow> False | Some b \<Rightarrow> b)"

definition ns_extras :: "Namespace \<Rightarrow> string list" where
  "ns_extras ns = (case extras ns of None \<Rightarrow> [] | Some es \<Rightarrow> es)"

text \<open>
  \<^verbatim>\<open>parse_args\<close>, from the namespace on. The parser built by \<^verbatim>\<open>build_parser\<close> is the standard
  library's and is the parameter \<open>argparse\<close>: it returns the namespace or raises
  (\<^verbatim>\<open>SystemExit\<close> on a usage error).
\<close>

definition parse_args :: "(string list \<Rightarrow> exc + Namespace) \<Rightarrow> string list \<Rightarrow> exc + CliArgs" where
  "parse_args argparse argv =
     (case argparse argv of
        Inl e \<Rightarrow> Inl e
      | Inr ns \<Rightarrow>
          let token_extras = filter (\<lambda>e. lower e \<in> EXTRA_TOKENS) (ns_extras ns) in
          (case (if token_extras \<noteq> [] then parse_extras token_extras else Inr (False, False, False)) of
            Inl e \<Rightarrow> Inl e
          | Inr (token_vision, token_control, token_waypoints) \<Rightarrow>
              let vision = (getattr_bool (Namespace.vision ns) \<or> token_vision);
                  control = (getattr_bool (Namespace.control ns) \<or> token_control);
                  waypoints = (getattr_bool (Namespace.waypoints ns) \<or> token_waypoints)
              in if control \<and> \<not> vision
                 then Inl (SystemExit ''Error: --control requires --vision (click-to-go needs vision).'')
                 else if Namespace.mode ns = ''udp'' then
                   Inr \<lparr>CliArgs.mode = ''udp'', CliArgs.channel = None, CliArgs.channels = None,
                        CliArgs.vision = vision, CliArgs.control = control,
                        CliArgs.waypoints = waypoints, CliArgs.dry_run = Namespace.dry_run ns,
                        CliArgs.log_level = Namespace.log_level ns\<rparr>
                 else if Namespace.mode ns = ''radio'' then
                   (case Namespace.channel ns of
                      None \<Rightarrow> Inl (AttributeError ''channel'')
                    | Some c \<Rightarrow>
                        Inr \<lparr>CliArgs.mode = ''radio'', CliArgs.channel = Some c, CliArgs.channels = None,
                             CliArgs.vision = vision, CliArgs.control = control,
                             CliArgs.waypoints = waypoints, CliArgs.dry_run = Namespace.dry_run ns,
                             CliArgs.log_level = Namespace.log_level ns\<rparr>)
                 else if Namespace.mode ns = ''swarm'' then
                   (case Namespace.channels ns of
                      None \<Rightarrow> Inl (AttributeError ''channels'')
                    | Some cs \<Rightarrow>
                        Inr \<lparr>CliArgs.mode = ''swarm'', CliArgs.channel = None, CliArgs.channels = Some cs,
                             CliArgs.vision = vision, CliArgs.control = control,
                             CliArgs.waypoints = waypoints, CliArgs.dry_run = Namespace.dry_run ns,
                             CliArgs.log_level = Namespace.log_level ns\<rparr>)
                 else Inl (SystemExit (''Unknown mode: '' @ Namespace.mode ns))))"

text \<open>What a command line asks for, by an option flag or by a trailing token.\<close>

definition vision_requested :: "Namespace \<Rightarrow> bool" where
  "vision_requested ns = (getattr_bool (Namespace.vision ns) \<or> ''vision'' \<in> set (map lower (ns_extras ns)))"

definition control_requested :: "Namespace \<Rightarrow> bool" where
  "control_requested ns = (getattr_bool (Namespace.control ns) \<or> ''control'' \<in> set (map lower (ns_extras ns)))"

section \<open>core/runner.py\<close>

subsection \<open>The snapshot value\<close>

text \<open>
  \<^verbatim>\<open>dataclasses.asdict\<close> of the standard library: dataclass instances become dictionaries,
  lists, tuples and dictionaries are rebuilt around their converted elements, anything else
  is copied.
\<close>

fun asdict :: "pyval \<Rightarrow> pyval" where
  "asdict (PyDataclass n fs) = PyDict (map (\<lambda>kv. (fst kv, asdict (snd kv))) fs)"
| "asdict (PyList vs) = PyList (map asdict vs)"
| "asdict (PyTuple vs) = PyTuple (map asdict vs)"
| "asdict (PyDict kvs) = PyDict (map (\<lambda>kv. (fst kv, asdict (snd kv))) kvs)"
| "asdict v = v"

definition items :: "pyval \<Rightarrow> (string \<times> pyval) list" where
  "items d = (case d of PyDict kvs \<Rightarrow> kvs | _ \<Rightarrow> [])"

lemma size_list_pointwise:
  "(\<And>x. x \<in> set xs \<Longrightarrow> f x = g x) \<Longrightarrow> size_list f xs = size_list g xs"
  by (induction xs) simp_all

lemma size_asdict: "size (asdict v) = size v"
proof (induction v rule: asdict.induct)
  case (1 n fs)
  have "size_list (\<lambda>x. Suc (size (asdict (snd x)))) fs = size_list (size_prod (\<lambda>x. 0) size) fs"
  proof (rule size_list_pointwise)
    fix x assume "x \<in> set fs"
    then show "Suc (size (asdict (snd x))) = size_prod (\<lambda>x. 0) size x"
      using "1.IH" by (simp add: size_prod_simp)
  qed
  then show ?case by (simp add: o_def)
next
  case (2 vs)
  then have "size_list (\<lambda>x. size (asdict x)) vs = size_list size vs"
    by (intro size_list_pointwise) simp
  then show ?case by (simp add: o_def)
next
  case (3 vs)
  then have "size_list (\<lambda>x. size (asdict x)) vs = size_list size vs"
    by (intro size_list_pointwise) simp
  then show ?case by (simp add: o_def)
next
  case (4 kvs)
  have "size_list (\<lambda>x. Suc (size (asdict (snd x)))) kvs = size_list (size_prod (\<lambda>x. 0) size) kvs"
  proof (rule size_list_pointwise)
    fix x assume "x \<in> set kvs"
    then show "Suc (size (asdict (snd x))) = size_prod (\<lambda>x. 0) size x"
      using "4.IH" by (simp add: size_prod_simp)
  qed
  then show ?case by (simp add: o_def)
qed simp_all

lemma size_items_asdict:
  assumes "kv \<in> set (items (asdict (PyDataclass n fs)))"
  shows "size (snd kv) < size (PyDataclass n fs)"
proof -
  from assms obtain kv' where kv': "kv' \<in> set fs" "snd kv = asdict (snd kv')"
    by (auto simp: items_def)
  have "size (snd kv') < Suc (size_list (size_prod (\<lambda>_. 0) size) fs)"
    using kv'(1) by (induction fs) (auto simp: less_Suc_eq_le)
  then show ?thesis using kv'(2) by (simp add: size_asdict)
qed

function safe_asdict :: "pyval \<Rightarrow> pyval" where
  "safe_asdict (PyDataclass n fs) =
     PyDict (map (\<lambda>kv. (fst kv, safe_asdict (snd kv))) (items (asdict (PyDataclass n fs))))"
| "safe_asdict (PyDict kvs) = PyDict (map (\<lambda>kv. (fst kv, safe_asdict (snd kv))) kvs)"
| "safe_asdict (PyList vs) = PyList (map safe_asdict vs)"
| "safe_asdict (PyTuple vs) = PyList (map safe_asdict vs)"
| "safe_asdict (PyPath p) = PyStr (str_of_Path p)"
| "safe_asdict PyNone = PyNone"
| "safe_asdict (PyBool b) = PyBool b"
| "safe_asdict (PyInt i) = PyInt i"
| "safe_asdict (PyFloat x) = PyFloat x"
| "safe_asdict (PyStr s) = PyStr s"
| "safe_asdict (PyObj x) = PyObj x"
| "safe_asdict (PyJson v) = PyJson v"
  by pat_completeness auto
termination
proof (relation "measure size")
  show "wf (measure size)" by simp
next
  fix n fs kv
  assume "kv \<in> set (items (asdict (PyDataclass n fs)))"
  then show "(snd kv, PyDataclass n fs) \<in> measure size"
    using size_items_asdict by simp
next
  fix kvs :: "(string \<times> pyval) list" and kv
  assume "kv \<in> set kvs"
  then have "size (snd kv) < Suc (size_list (size_prod (\<lambda>_. 0) size) kvs)"
    by (induction kvs) (auto simp: less_Suc_eq_le)
  then show "(snd kv, PyDict kvs) \<in> measure size" by simp
next
  fix vs :: "pyval list" and v
  assume "v \<in> set vs"
  then have "size v < Suc (size_list size vs)"
    by (induction vs) (auto simp: less_Suc_eq_le)
  then show "(v, PyList vs) \<in> measure size" by simp
next
  fix vs :: "pyval list" and v
  assume "v \<in> set vs"
  then have "size v < Suc (size_list size vs)"
    by (induction vs) (auto simp: less_Suc_eq_le)
  then show "(v, PyTuple vs) \<in> measure size" by simp
qed

subsection \<open>Collaborators, local variables and statements\<close>

text \<open>
  Every call that leaves the module: the logging and file system calls of the standard
  library, the lazy imports, the constructors and methods of the subsystems.
\<close>

datatype op =
    SetupLogging | LogInfo | LogException
  | Mkdir | WriteText
  | ImportDroneConnection | ImportDroneLogs | NewDroneConnection | NewDroneLogs
  | ImportSwarmCommand | NewSwarmCommand
  | ImportThread | ImportDetectorRT | NewDetectorRT | NewThread | ThreadStart
  | ImportCommand | NewCommand | SetDetector | CmdRun
  | DetectorStop | ThreadJoin | SwarmClose | DroneLogsClose | DroneClose

datatype outcome = Returns | Raises exc

text \<open>
  The behaviour of the collaborators in one run: what each call does, and whether the
  detector's thread, once started, is still running when teardown asks \<^verbatim>\<open>is_alive()\<close>.
  \<^verbatim>\<open>_setup_logging\<close> consults it (\<^verbatim>\<open>logging.basicConfig\<close> raises on a level it does not know);
  the calls of the logger \<^verbatim>\<open>log\<close> are recorded and return.
\<close>

record env =
  outcome_of :: "op \<Rightarrow> outcome"
  thread_alive :: bool

type_synonym event = "op \<times> (string \<times> pyval) list"

text \<open>
  The local variables of \<^verbatim>\<open>run\<close>, the calls made so far with their arguments, and whether
  \<^verbatim>\<open>Thread.start()\<close> has returned (a thread that was never started is not alive).
\<close>

record locals =
  drone :: "obj option"
  drone_logs :: "obj option"
  swarm :: "obj option"
  detector :: "obj option"
  detector_thread :: "obj option"
  cmd :: "obj option"
  started :: bool
  trace :: "event list"

datatype completion = Normal | Return int | Raised exc

type_synonym stmt = "locals \<Rightarrow> completion \<times> locals"

definition call :: "env \<Rightarrow> op \<Rightarrow> (string \<times> pyval) list \<Rightarrow> stmt" where
  "call w f args \<sigma> =
     (let \<sigma>' = \<sigma>\<lparr>trace := trace \<sigma> @ [(f, args)]\<rparr>
      in case outcome_of w f of Returns \<Rightarrow> (Normal, \<sigma>') | Raises e \<Rightarrow> (Raised e, \<sigma>'))"

definition emit :: "op \<Rightarrow> (string \<times> pyval) list \<Rightarrow> stmt" where
  "emit f args \<sigma> = (Normal, \<sigma>\<lparr>trace := trace \<sigma> @ [(f, args)]\<rparr>)"

definition assign :: "(locals \<Rightarrow> locals) \<Rightarrow> stmt" where
  "assign upd \<sigma> = (Normal, upd \<sigma>)"

definition ret :: "int \<Rightarrow> stmt" where
  "ret n \<sigma> = (Return n, \<sigma>)"

fun block :: "stmt list \<Rightarrow> stmt" where
  "block [] \<sigma> = (Normal, \<sigma>)"
| "block (c # cs) \<sigma> = (case c \<sigma> of (Normal, \<sigma>') \<Rightarrow> block cs \<sigma>' | (r, \<sigma>') \<Rightarrow> (r, \<sigma>'))"

definition if_then :: "(locals \<Rightarrow> bool) \<Rightarrow> stmt \<Rightarrow> stmt" where
  "if_then c body \<sigma> = (if c \<sigma> then body \<sigma> else (Normal, \<sigma>))"

text \<open>\<^verbatim>\<open>x = C(...)\<close>: the variable is bound only when the constructor returns.\<close>

definition new :: "env \<Rightarrow> op \<Rightarrow> (string \<times> pyval) list \<Rightarrow> (locals \<Rightarrow> locals) \<Rightarrow> stmt" where
  "new w f args upd = block [call w f args, assign upd]"

text \<open>\<^verbatim>\<open>try: body  except Exception: handler\<close>.\<close>

definition try_except_Exception :: "stmt \<Rightarrow> (exc \<Rightarrow> stmt) \<Rightarrow> stmt" where
  "try_except_Exception body handler \<sigma> =
     (case body \<sigma> of
        (Raised e, \<sigma>') \<Rightarrow> if is_Exception e then handler e \<sigma>' else (Raised e, \<sigma>')
      | (r, \<sigma>') \<Rightarrow> (r, \<sigma>'))"

text \<open>
  \<^verbatim>\<open>try: body  finally: fin\<close>. The \<^verbatim>\<open>finally\<close> suite always runs; when it completes normally
  the pending return or exception of the body goes on, otherwise its own completion replaces
  it.
\<close>

definition try_finally :: "stmt \<Rightarrow> stmt \<Rightarrow> stmt" where
  "try_finally body fin \<sigma> =
     (case body \<sigma> of (r, \<sigma>') \<Rightarrow>
        (case fin \<sigma>' of (Normal, \<sigma>'') \<Rightarrow> (r, \<sigma>'') | (r', \<sigma>'') \<Rightarrow> (r', \<sigma>'')))"

definition py_obj :: "obj option \<Rightarrow> pyval" where
  "py_obj x = py_opt PyObj x"

definition is_alive :: "env \<Rightarrow> locals \<Rightarrow> bool" where
  "is_alive w \<sigma> = (started \<sigma> \<and> thread_alive w)"

subsection \<open>The orchestrator\<close>

definition write_settings_snapshot :: "env \<Rightarrow> Settings \<Rightarrow> Path \<Rightarrow> stmt" where
  "write_settings_snapshot w settings out_dir =
     block
      [call w Mkdir [(''self'', PyPath out_dir), (''parents'', PyBool True), (''exist_ok'', PyBool True)],
       call w WriteText
         [(''self'', PyPath (joinpath out_dir ''settings.json'')),
          (''data'', PyJson (safe_asdict (Settings_obj settings))),
          (''encoding'', PyStr ''utf-8'')]]"

text \<open>\<^verbatim>\<open>settings.uri or settings.swarm.channels\<close>: an absent or empty URI is falsy.\<close>

definition channel_arg :: "Settings \<Rightarrow> pyval" where
  "channel_arg settings =
     (case uri settings of
        Some u \<Rightarrow> if u \<noteq> [] then PyStr u
                  else py_opt (\<lambda>cs. PyList (map PyStr cs)) (SwarmSettings.channels (Settings.swarm settings))
      | None \<Rightarrow> py_opt (\<lambda>cs. PyList (map PyStr cs)) (SwarmSettings.channels (Settings.swarm settings)))"

text \<open>The suite of the \<^verbatim>\<open>try\<close>: initialization, then the blocking loop.\<close>

definition init_and_loop :: "Settings \<Rightarrow> env \<Rightarrow> stmt" where
  "init_and_loop settings w =
     block
      [call w ImportDroneConnection [],
       call w ImportDroneLogs [],
       emit LogInfo [('''', PyStr ''Initializing drone connection (mode=%s)...''),
                     ('''', PyStr (Settings.mode settings))],
       new w NewDroneConnection
         [(''mode'', PyStr (Settings.mode settings)), (''channel'', channel_arg settings)]
         (\<lambda>\<sigma>. \<sigma>\<lparr>drone := Some DroneConnection\<rparr>),
       emit LogInfo [('''', PyStr ''Initializing telemetry logging...'')],
       (\<lambda>\<sigma>. new w NewDroneLogs [('''', py_obj (drone \<sigma>))]
              (\<lambda>\<sigma>. \<sigma>\<lparr>drone_logs := Some DroneLogs\<rparr>) \<sigma>),
       if_then (\<lambda>_. Settings.mode settings = ''swarm'')
         (block
           [call w ImportSwarmCommand [],
            emit LogInfo [('''', PyStr ''Initializing swarm controller...'')],
            new w NewSwarmCommand
              [(''channels'',
                py_opt (\<lambda>cs. PyList (map PyStr cs)) (SwarmSettings.channels (Settings.swarm settings)))]
              (\<lambda>\<sigma>. \<sigma>\<lparr>locals.swarm := Some SwarmCommand\<rparr>)]),
       if_then (\<lambda>_. VisionSettings.enabled (Settings.vision settings))
         (block
           [call w ImportThread [],
            call w ImportDetectorRT [],
            emit LogInfo [('''', PyStr ''Starting vision detector thread...'')],
            new w NewDetectorRT
              [(''camera_index'', py_opt PyInt (camera_index (Settings.vision settings))),
               (''camera_url'', py_opt PyStr (camera_url (Settings.vision settings))),
               (''marker_size_m'', PyFloat (marker_size_m (Settings.vision settings))),
               (''aruco_dict_name'', PyStr (aruco_dict_name (Settings.vision settings))),
               (''show_window'', PyBool (show_window (Settings.vision settings)))]
              (\<lambda>\<sigma>. \<sigma>\<lparr>detector := Some DetectorRT\<rparr>),
            (\<lambda>\<sigma>. new w NewThread [(''target'', py_obj (detector \<sigma>)), (''daemon'', PyBool True)]
                   (\<lambda>\<sigma>. \<sigma>\<lparr>detector_thread := Some Thread\<rparr>) \<sigma>),
            new w ThreadStart [] (\<lambda>\<sigma>. \<sigma>\<lparr>started := True\<rparr>)]),
       call w ImportCommand [],
       emit LogInfo [('''', PyStr ''Launching command/UI loop...'')],
       (\<lambda>\<sigma>. new w NewCommand
               [(''drone'', py_obj (drone \<sigma>)),
                (''logs'', py_obj (drone_logs \<sigma>)),
                (''swarm'', py_obj (locals.swarm \<sigma>)),
                (''vision'', PyBool (VisionSettings.enabled (Settings.vision settings))),
                (''control'', PyBool (control_enabled (Settings.vision settings))),
                (''waypoint'', PyBool (FeatureFlags.waypoints (features settings)))]
              (\<lambda>\<sigma>. \<sigma>\<lparr>cmd := Some Command\<rparr>) \<sigma>),
       if_then (\<lambda>\<sigma>. detector \<sigma> \<noteq> None)
         (\<lambda>\<sigma>. call w SetDetector [('''', py_obj (detector \<sigma>)), ('''', py_obj (detector_thread \<sigma>))] \<sigma>),
       call w CmdRun [],
       emit LogInfo [('''', PyStr ''Run completed normally.'')],
       ret 0]"

text \<open>The suite of the \<^verbatim>\<open>finally\<close>: four guarded blocks, in this order.\<close>

definition teardown :: "env \<Rightarrow> stmt" where
  "teardown w =
     block
      [emit LogInfo [('''', PyStr ''Shutting down subsystems...'')],
       try_except_Exception
         (block
           [if_then (\<lambda>\<sigma>. detector \<sigma> \<noteq> None) (call w DetectorStop []),
            if_then (\<lambda>\<sigma>. detector_thread \<sigma> \<noteq> None \<and> is_alive w \<sigma>)
              (call w ThreadJoin [(''timeout'', PyFloat 0x4000000000000000)])])
         (\<lambda>_. emit LogException [('''', PyStr ''Error during vision shutdown.'')]),
       try_except_Exception
         (if_then (\<lambda>\<sigma>. locals.swarm \<sigma> \<noteq> None) (call w SwarmClose []))
         (\<lambda>_. emit LogException [('''', PyStr ''Error during swarm shutdown.'')]),
       try_except_Exception
         (if_then (\<lambda>\<sigma>. drone_logs \<sigma> \<noteq> None) (call w DroneLogsClose []))
         (\<lambda>_. emit LogException [('''', PyStr ''Error during log shutdown.'')]),
       try_except_Exception
         (if_then (\<lambda>\<sigma>. drone \<sigma> \<noteq> None) (call w DroneClose []))
         (\<lambda>_. emit LogException [('''', PyStr ''Error during drone shutdown.'')])]"

definition run :: "Settings \<Rightarrow> env \<Rightarrow> stmt" where
  "run settings w =
     block
      [call w SetupLogging [('''', PyStr (RunSettings.log_level (Settings.run settings)))],
       write_settings_snapshot w settings (logs_dir (Settings.run settings)),
       if_then (\<lambda>_. Settings.dry_run settings)
         (block
           [emit LogInfo [('''', PyStr ''Dry-run enabled: skipping hardware + vision initialization.'')],
            ret 0]),
       assign (\<lambda>\<sigma>. \<sigma>\<lparr>drone := None, drone_logs := None, locals.swarm := None,
                       detector := None, detector_thread := None\<rparr>),
       try_finally
         (try_except_Exception
            (init_and_loop settings w)
            (\<lambda>e. block [emit LogException [('''', PyStr ''Fatal error in runner: %s'')], ret 1]))
         (teardown w)]"

text \<open>The frame in which a call of \<^verbatim>\<open>run\<close> starts: nothing bound, nothing called.\<close>

definition entry :: locals where
  "entry = \<lparr>drone = None, drone_logs = None, locals.swarm = None, detector = None,
            detector_thread = None, cmd = None, started = False, trace = []\<rparr>"

definition run_result :: "Settings \<Rightarrow> env \<Rightarrow> completion" where
  "run_result settings w = fst (run settings w entry)"



section \<open>Vocabulary of the properties\<close>

text \<open>The five shutdown operations, in the order of the \<^verbatim>\<open>finally\<close> suite.\<close>

definition shutdown_ops :: "op list" where
  "shutdown_ops = [DetectorStop, ThreadJoin, SwarmClose, DroneLogsClose, DroneClose]"

text \<open>No shutdown operation raises anything but an instance of \<^verbatim>\<open>Exception\<close>.\<close>

definition contained :: "env \<Rightarrow> bool" where
  "contained w = list_all (\<lambda>f. case outcome_of w f of Returns \<Rightarrow> True | Raises e \<Rightarrow> is_Exception e) shutdown_ops"

text \<open>The shutdown operations that teardown attempts from a given frame, in order.\<close>

definition teardown_calls :: "env \<Rightarrow> locals \<Rightarrow> op list" where
  "teardown_calls w \<sigma> =
     filter (\<lambda>f. f \<in> set shutdown_ops) (map fst (drop (length (trace \<sigma>)) (trace (snd (teardown w \<sigma>)))))"

text \<open>The calls of the \<^verbatim>\<open>try\<close> suite that can raise, in the order in which a run without failure makes them.\<close>

definition init_plan :: "Settings \<Rightarrow> op list" where
  "init_plan settings =
     [ImportDroneConnection, ImportDroneLogs, NewDroneConnection, NewDroneLogs]
     @ (if Settings.mode settings = ''swarm'' then [ImportSwarmCommand, NewSwarmCommand] else [])
     @ (if VisionSettings.enabled (Settings.vision settings)
        then [ImportThread, ImportDetectorRT, NewDetectorRT, NewThread, ThreadStart] else [])
     @ [ImportCommand, NewCommand]
     @ (if VisionSettings.enabled (Settings.vision settings) then [SetDetector] else [])
     @ [CmdRun]"

text \<open>The first call of a list that raises, with its exception.\<close>

fun first_raise :: "env \<Rightarrow> op list \<Rightarrow> (op \<times> exc) option" where
  "first_raise w [] = None"
| "first_raise w (f # fs) =
     (case outcome_of w f of Returns \<Rightarrow> first_raise w fs | Raises e \<Rightarrow> Some (f, e))"

text \<open>The steps of a plan that come before a given one.\<close>

definition before :: "op \<Rightarrow> op list \<Rightarrow> op list" where
  "before f ops = takeWhile (\<lambda>g. g \<noteq> f) ops"

text \<open>The frame in which the \<^verbatim>\<open>try\<close> statement starts: every handle absent, the calls of the prologue made.\<close>

definition frame :: "event list \<Rightarrow> locals" where
  "frame t = \<lparr>drone = None, drone_logs = None, locals.swarm = None, detector = None,
            detector_thread = None, cmd = None, started = False, trace = t\<rparr>"

text \<open>The three calls every run starts with when none of them raises.\<close>

definition snapshot_events :: "Settings \<Rightarrow> event list" where
  "snapshot_events s =
     [(SetupLogging, [('''', PyStr (RunSettings.log_level (Settings.run s)))]),
      (Mkdir, [(''self'', PyPath (logs_dir (Settings.run s))), (''parents'', PyBool True),
               (''exist_ok'', PyBool True)]),
      (WriteText, [(''self'', PyPath (joinpath (logs_dir (Settings.run s)) ''settings.json'')),
                   (''data'', PyJson (safe_asdict (Settings_obj s))),
                   (''encoding'', PyStr ''utf-8'')])]"



text \<open>The calls that come before the dry-run check, outside the \<^verbatim>\<open>try\<close> statement.\<close>

definition prologue :: "op list" where
  "prologue = [SetupLogging, Mkdir, WriteText]"




section \<open>Example inputs\<close>

text \<open>A namespace as \<^verbatim>\<open>fly udp\<close> yields it, by its two flags and its trailing tokens.\<close>

definition ns_udp :: "bool \<Rightarrow> bool \<Rightarrow> string list \<Rightarrow> Namespace" where
  "ns_udp v c es =
     \<lparr>Namespace.mode = ''udp'', Namespace.dry_run = False, Namespace.log_level = None,
      Namespace.channel = None, Namespace.channels = None, Namespace.vision = Some v,
      Namespace.control = Some c, Namespace.waypoints = Some False, extras = Some es\<rparr>"

text \<open>Collaborators that all succeed, and the same with one call made to raise.\<close>

definition env_ok :: env where
  "env_ok = \<lparr>outcome_of = (\<lambda>_. Returns), thread_alive = True\<rparr>"

definition fails :: "env \<Rightarrow> op \<Rightarrow> exc \<Rightarrow> env" where
  "fails w f e = w\<lparr>outcome_of := (outcome_of w)(f := Raises e)\<rparr>"

text \<open>A resolved configuration, by its mode, its dry-run flag and its vision flag.\<close>

definition settings_ex :: "string \<Rightarrow> bool \<Rightarrow> bool \<Rightarrow> Settings" where
  "settings_ex m d v =
    \<lparr>Settings.mode = m, Settings.dry_run = d,
     run = \<lparr>project_root = Path ''/'' [''nest''], logs_dir = Path ''/'' [''nest'', ''logs''],
            data_dir = Path ''/'' [''nest'', ''data''], cache_dir = Path ''/'' [''nest'', ''cache''],
            RunSettings.log_level = ''INFO''\<rparr>,
     radio = \<lparr>uri_by_channel = [(''7'', ''radio://0/7/2M/E7E7E7E707''), (''8'', []), (''9'', [])]\<rparr>,
     swarm = \<lparr>SwarmSettings.enabled = (m = ''swarm''),
              SwarmSettings.channels = (if m = ''swarm'' then Some [''7'', ''8'', ''9''] else None)\<rparr>,
     vision = \<lparr>VisionSettings.enabled = v, control_enabled = False, camera_index = None,
               camera_url = None, aruco_dict_name = ''DICT_4X4_50'',
               marker_size_m = 0x3FA47AE147AE147B, show_window = True\<rparr>,
     features = \<lparr>FeatureFlags.waypoints = False\<rparr>,
     uri = (if m = ''swarm'' then None else Some ''radio://0/7/2M/E7E7E7E707'')\<rparr>"

text \<open>A frame in which every handle is present and the detector's thread was started.\<close>

definition all_built :: locals where
  "all_built = \<lparr>drone = Some DroneConnection, drone_logs = Some DroneLogs,
                locals.swarm = Some SwarmCommand, detector = Some DetectorRT,
                detector_thread = Some Thread, cmd = Some Command, started = True, trace = []\<rparr>"

section \<open>Properties of the command line\<close>

lemma lower_in_filter:
  "t \<in> EXTRA_TOKENS \<Longrightarrow>
   t \<in> set (map lower (filter (\<lambda>e. lower e \<in> EXTRA_TOKENS) es)) \<longleftrightarrow> t \<in> set (map lower es)"
  by auto

lemma vision_in_tokens: "''vision'' \<in> EXTRA_TOKENS"
  by (simp add: EXTRA_TOKENS_def)

lemma control_in_tokens: "''control'' \<in> EXTRA_TOKENS"
  by (simp add: EXTRA_TOKENS_def)

lemma token_control_raises:
  assumes "argparse argv = Inr ns"
    and "''control'' \<in> set (map lower (ns_extras ns))"
    and "''vision'' \<notin> set (map lower (ns_extras ns))"
  shows "parse_args argparse argv =
           Inl (ValueError ''`control` requires `vision` (click-to-go needs vision).'')"
proof -
  let ?ts = "filter (\<lambda>e. lower e \<in> EXTRA_TOKENS) (ns_extras ns)"
  have c: "''control'' \<in> set (map lower ?ts)"
    using assms(2) lower_in_filter [OF control_in_tokens] by blast
  have v: "''vision'' \<notin> set (map lower ?ts)"
    using assms(3) lower_in_filter [OF vision_in_tokens] by blast
  from c have ne: "?ts \<noteq> []" by (cases ?ts) simp_all
  have "parse_extras ?ts = Inl (ValueError ''`control` requires `vision` (click-to-go needs vision).'')"
    using c v by (simp add: parse_extras_def Let_def)
  with ne show ?thesis
    using assms(1) by (simp add: parse_args_def Let_def)
qed

lemma parse_extras_Inr:
  "parse_extras es = Inr (v, c, w) \<Longrightarrow>
     v = (''vision'' \<in> set (map lower es)) \<and> c = (''control'' \<in> set (map lower es)) \<and> (c \<longrightarrow> v)"
  by (auto simp: parse_extras_def Let_def split: if_splits)

lemma parse_args_Inr_control:
  assumes "parse_args argparse argv = Inr a"
  shows "CliArgs.control a \<longrightarrow> CliArgs.vision a"
  using assms
  by (auto simp: parse_args_def Let_def split: sum.splits if_splits prod.splits option.splits)

text \<open>
  Claim C8. Whenever the parsed command line requests control (by the flag \<^verbatim>\<open>--control\<close> or by
  a trailing token \<^verbatim>\<open>control\<close>) and requests vision in neither way, \<^verbatim>\<open>parse_args\<close> raises; and
  every \<^verbatim>\<open>CliArgs\<close> value that \<^verbatim>\<open>parse_args\<close> returns with control set has vision set.
\<close>

theorem parse_args_control_requires_vision:
  "(argparse argv = Inr ns \<and> control_requested ns \<and> \<not> vision_requested ns
      \<longrightarrow> (\<exists>e. parse_args argparse argv = Inl e))
   \<and> (parse_args argparse argv = Inr a \<longrightarrow> CliArgs.control a \<longrightarrow> CliArgs.vision a)"
proof (intro conjI impI)
  assume h: "argparse argv = Inr ns \<and> control_requested ns \<and> \<not> vision_requested ns"
  show "\<exists>e. parse_args argparse argv = Inl e"
  proof (cases "parse_args argparse argv")
    case (Inl e)
    then show ?thesis by blast
  next
    case (Inr a)
    have nv: "\<not> getattr_bool (Namespace.vision ns)" "''vision'' \<notin> set (map lower (ns_extras ns))"
      using h by (simp_all add: vision_requested_def)
    show ?thesis
    proof (cases "''control'' \<in> set (map lower (ns_extras ns))")
      case True
      then show ?thesis using token_control_raises h nv(2) by blast
    next
      case False
      then have cf: "getattr_bool (Namespace.control ns)"
        using h by (simp add: control_requested_def)
      let ?ts = "filter (\<lambda>e. lower e \<in> EXTRA_TOKENS) (ns_extras ns)"
      have v: "''vision'' \<notin> set (map lower ?ts)"
        using nv(2) lower_in_filter [OF vision_in_tokens] by blast
      have "\<And>tv tc tw. parse_extras ?ts = Inr (tv, tc, tw) \<Longrightarrow> \<not> tv"
        using v parse_extras_Inr by blast
      then show ?thesis
        using h cf nv(1)
        by (auto simp: parse_args_def Let_def split: sum.splits prod.splits if_splits)
    qed
  qed
next
  assume "parse_args argparse argv = Inr a" "CliArgs.control a"
  then show "CliArgs.vision a" using parse_args_Inr_control by blast
qed

theorem parse_args_control_requires_vision_witness:
  "control_requested (ns_udp False True []) \<and> \<not> vision_requested (ns_udp False True [])
   \<and> isl (parse_args (\<lambda>_. Inr (ns_udp False True [])) [''udp'', ''--control''])
   \<and> parse_args (\<lambda>_. Inr (ns_udp True True [])) [''udp'', ''--vision'', ''--control'']
       = Inr \<lparr>CliArgs.mode = ''udp'', CliArgs.channel = None, CliArgs.channels = None,
              CliArgs.vision = True, CliArgs.control = True, CliArgs.waypoints = False,
              CliArgs.dry_run = False, CliArgs.log_level = None\<rparr>"
  using parse_args_control_requires_vision
          [of "\<lambda>_. Inr (ns_udp False True [])" "[''udp'', ''--control'']" "ns_udp False True []"]
        parse_args_control_requires_vision
          [of "\<lambda>_. Inr (ns_udp True True [])" "[''udp'', ''--vision'', ''--control'']" _
              "\<lparr>CliArgs.mode = ''udp'', CliArgs.channel = None, CliArgs.channels = None,
                CliArgs.vision = True, CliArgs.control = True, CliArgs.waypoints = False,
                CliArgs.dry_run = False, CliArgs.log_level = None\<rparr>"]
  by (auto simp: control_requested_def vision_requested_def ns_udp_def ns_extras_def getattr_bool_def
        parse_args_def)

text \<open>
  Claim C10. The trailing tokens are validated on their own, before the option flags are
  looked at: when they hold \<^verbatim>\<open>control\<close> and no \<^verbatim>\<open>vision\<close> (in any letter case),
  \<^verbatim>\<open>parse_args\<close> raises the \<^verbatim>\<open>ValueError\<close> of \<^verbatim>\<open>_parse_extras\<close>, whatever the flags are, the
  flag \<^verbatim>\<open>--vision\<close> included.
\<close>

theorem parse_args_tokens_checked_alone:
  "argparse argv = Inr ns \<Longrightarrow>
   ''control'' \<in> set (map lower (ns_extras ns)) \<Longrightarrow>
   ''vision'' \<notin> set (map lower (ns_extras ns)) \<Longrightarrow>
   parse_args argparse argv =
     Inl (ValueError ''`control` requires `vision` (click-to-go needs vision).'')"
  by (rule token_control_raises)

theorem parse_args_tokens_checked_alone_witness:
  "Namespace.vision (ns_udp True False [''Control'']) = Some True
   \<and> ''control'' \<in> set (map lower (ns_extras (ns_udp True False [''Control''])))
   \<and> ''vision'' \<notin> set (map lower (ns_extras (ns_udp True False [''Control''])))
   \<and> parse_args (\<lambda>_. Inr (ns_udp True False [''Control''])) [''udp'', ''--vision'', ''Control'']
       = Inl (ValueError ''`control` requires `vision` (click-to-go needs vision).'')"
proof -
  have c: "''control'' \<in> set (map lower (ns_extras (ns_udp True False [''Control''])))"
    by (simp add: ns_udp_def ns_extras_def lower_def lower_char_def)
  have v: "''vision'' \<notin> set (map lower (ns_extras (ns_udp True False [''Control''])))"
    by (simp add: ns_udp_def ns_extras_def lower_def lower_char_def)
  show ?thesis
    using parse_args_tokens_checked_alone
            [of "\<lambda>_. Inr (ns_udp True False [''Control''])" "[''udp'', ''--vision'', ''Control'']"
                "ns_udp True False [''Control'']", OF refl c v] c v
    by (simp add: ns_udp_def)
qed

section \<open>Properties of the orchestrator\<close>

lemma guarded_close:
  assumes "case outcome_of w f of Returns \<Rightarrow> True | Raises e \<Rightarrow> is_Exception e"
  shows "try_except_Exception (if_then c (call w f args)) (\<lambda>_. emit LogException m) \<sigma> =
     (Normal, \<sigma>\<lparr>trace := trace \<sigma> @ (if c \<sigma> then (f, args) # (if outcome_of w f = Returns then [] else [(LogException, m)]) else [])\<rparr>)"
  using assms
  by (cases "outcome_of w f"; simp add: try_except_Exception_def if_then_def call_def emit_def)

lemma guarded_vision:
  assumes "case outcome_of w DetectorStop of Returns \<Rightarrow> True | Raises e \<Rightarrow> is_Exception e"
      and "case outcome_of w ThreadJoin of Returns \<Rightarrow> True | Raises e \<Rightarrow> is_Exception e"
  shows "try_except_Exception
         (block
           [if_then (\<lambda>\<sigma>. detector \<sigma> \<noteq> None) (call w DetectorStop a1),
            if_then (\<lambda>\<sigma>. detector_thread \<sigma> \<noteq> None \<and> is_alive w \<sigma>)
              (call w ThreadJoin a2)])
         (\<lambda>_. emit LogException m) \<sigma> =
     (Normal, \<sigma>\<lparr>trace := trace \<sigma> @
        (if detector \<sigma> \<noteq> None then (DetectorStop, a1) # (if outcome_of w DetectorStop = Returns then [] else [(LogException, m)]) else [])
        @ (if detector_thread \<sigma> \<noteq> None \<and> is_alive w \<sigma> \<and> (detector \<sigma> = None \<or> outcome_of w DetectorStop = Returns)
           then (ThreadJoin, a2) # (if outcome_of w ThreadJoin = Returns then [] else [(LogException, m)]) else [])\<rparr>)"
  using assms
  by (cases "outcome_of w DetectorStop"; cases "outcome_of w ThreadJoin";
      simp add: try_except_Exception_def if_then_def call_def emit_def is_alive_def del: not_None_eq)

lemma is_alive_trace [simp]: "is_alive w (\<sigma>\<lparr>trace := t\<rparr>) = is_alive w \<sigma>"
  by (simp add: is_alive_def)

lemma teardown_eq:
  assumes "contained w"
  shows "teardown w \<sigma> = (Normal, \<sigma>\<lparr>trace := trace \<sigma> @
       (LogInfo, [('''', PyStr ''Shutting down subsystems...'')]) #
       ((if detector \<sigma> \<noteq> None then (DetectorStop, []) # (if outcome_of w DetectorStop = Returns then [] else [(LogException, [('''', PyStr ''Error during vision shutdown.'')])]) else [])
        @ (if detector_thread \<sigma> \<noteq> None \<and> is_alive w \<sigma> \<and> (detector \<sigma> = None \<or> outcome_of w DetectorStop = Returns)
           then (ThreadJoin, [(''timeout'', PyFloat 0x4000000000000000)]) # (if outcome_of w ThreadJoin = Returns then [] else [(LogException, [('''', PyStr ''Error during vision shutdown.'')])]) else []))
       @ (if locals.swarm \<sigma> \<noteq> None then (SwarmClose, []) # (if outcome_of w SwarmClose = Returns then [] else [(LogException, [('''', PyStr ''Error during swarm shutdown.'')])]) else [])
       @ (if drone_logs \<sigma> \<noteq> None then (DroneLogsClose, []) # (if outcome_of w DroneLogsClose = Returns then [] else [(LogException, [('''', PyStr ''Error during log shutdown.'')])]) else [])
       @ (if drone \<sigma> \<noteq> None then (DroneClose, []) # (if outcome_of w DroneClose = Returns then [] else [(LogException, [('''', PyStr ''Error during drone shutdown.'')])]) else [])\<rparr>)"
  using assms
  unfolding contained_def shutdown_ops_def teardown_def
  by (simp add: guarded_close guarded_vision emit_def del: not_None_eq split del: if_split)

lemma filter_if: "filter P (if c then xs else ys) = (if c then filter P xs else filter P ys)"
  by simp

lemma map_if: "map f (if c then xs else ys) = (if c then map f xs else map f ys)"
  by simp

lemma teardown_char:
  assumes "contained w"
  shows "fst (teardown w \<sigma>) = Normal"
    and "teardown_calls w \<sigma> =
       (if detector \<sigma> \<noteq> None then [DetectorStop] else [])
       @ (if detector_thread \<sigma> \<noteq> None \<and> is_alive w \<sigma> \<and> (detector \<sigma> = None \<or> outcome_of w DetectorStop = Returns)
          then [ThreadJoin] else [])
       @ (if locals.swarm \<sigma> \<noteq> None then [SwarmClose] else [])
       @ (if drone_logs \<sigma> \<noteq> None then [DroneLogsClose] else [])
       @ (if drone \<sigma> \<noteq> None then [DroneClose] else [])"
  unfolding teardown_calls_def teardown_eq [OF assms] shutdown_ops_def
  by (simp_all add: filter_if map_if del: not_None_eq split del: if_split cong: if_cong)

lemmas stmt_defs = call_def emit_def new_def assign_def ret_def if_then_def

lemma body_result:
  assumes "detector \<sigma> = None"
  shows "fst (init_and_loop s w \<sigma>) =
     (case first_raise w (init_plan s) of None \<Rightarrow> Return 0 | Some (f, e) \<Rightarrow> Raised e)"
  using assms
  by (cases "Settings.mode s = ''swarm''"; cases "VisionSettings.enabled (Settings.vision s)";
      simp add: init_and_loop_def init_plan_def stmt_defs split: outcome.splits)

lemma first_raise_SomeD:
  "first_raise w ops = Some (f, e) \<Longrightarrow>
     f \<in> set ops \<and> outcome_of w f = Raises e \<and> (\<forall>g \<in> set (before f ops). outcome_of w g = Returns)"
  by (induction ops) (auto simp: before_def split: outcome.splits)


















lemma block_last:
  "(case p of (Normal, \<sigma>') \<Rightarrow> block [] \<sigma>' | (r, \<sigma>') \<Rightarrow> (r, \<sigma>')) = p"
proof -
  obtain r \<sigma>' where "p = (r, \<sigma>')" by (cases p)
  then show ?thesis by (cases r) simp_all
qed

lemma run_main:
  assumes "outcome_of w SetupLogging = Returns"
    and "outcome_of w Mkdir = Returns" and "outcome_of w WriteText = Returns"
    and "\<not> Settings.dry_run s"
  shows "run s w entry =
     try_finally
       (try_except_Exception (init_and_loop s w)
          (\<lambda>e. block [emit LogException [('''', PyStr ''Fatal error in runner: %s'')], ret 1]))
       (teardown w) (frame (snapshot_events s))"
  using assms
  by (simp add: run_def write_settings_snapshot_def stmt_defs entry_def frame_def snapshot_events_def
        block_last)


lemma teardown_Normal: "contained w \<Longrightarrow> fst (teardown w \<sigma>) = Normal"
  using teardown_eq by simp

lemma try_finally_teardown:
  assumes "contained w"
  shows "fst (try_finally b (teardown w) \<sigma>) = fst (b \<sigma>)"
proof -
  obtain r1 \<sigma>1 where b: "b \<sigma> = (r1, \<sigma>1)" by (cases "b \<sigma>")
  obtain r2 \<sigma>2 where t: "teardown w \<sigma>1 = (r2, \<sigma>2)" by (cases "teardown w \<sigma>1")
  have "r2 = Normal" using teardown_Normal [OF assms, of \<sigma>1] t by simp
  then show ?thesis using b t by (simp add: try_finally_def)
qed

lemma run_result_eq:
  assumes "contained w"
  shows "run_result s w =
     (case first_raise w prologue of
        Some (f, e) \<Rightarrow> Raised e
      | None \<Rightarrow>
          if Settings.dry_run s then Return 0
          else (case first_raise w (init_plan s) of
                  None \<Rightarrow> Return 0
                | Some (f, e) \<Rightarrow> if is_Exception e then Return 1 else Raised e))"
proof (cases "outcome_of w SetupLogging = Returns \<and> outcome_of w Mkdir = Returns
                \<and> outcome_of w WriteText = Returns \<and> \<not> Settings.dry_run s")
  case False
  then show ?thesis
    by (cases "outcome_of w SetupLogging"; cases "outcome_of w Mkdir"; cases "outcome_of w WriteText";
        cases "Settings.dry_run s";
        simp add: run_result_def run_def write_settings_snapshot_def stmt_defs prologue_def)
next
  case True
  obtain r \<sigma>' where body: "init_and_loop s w (frame (snapshot_events s)) = (r, \<sigma>')"
    by (cases "init_and_loop s w (frame (snapshot_events s))")
  have r: "r = (case first_raise w (init_plan s) of None \<Rightarrow> Return 0 | Some (f, e) \<Rightarrow> Raised e)"
    using body_result [of "frame (snapshot_events s)" s w] body by (simp add: frame_def)
  have "run_result s w =
      fst (try_except_Exception (init_and_loop s w)
          (\<lambda>e. block [emit LogException [('''', PyStr ''Fatal error in runner: %s'')], ret 1])
          (frame (snapshot_events s)))"
    using True by (simp add: run_result_def run_main try_finally_teardown [OF assms])
  also have "\<dots> = (case first_raise w (init_plan s) of None \<Rightarrow> Return 0
                   | Some (f, e) \<Rightarrow> if is_Exception e then Return 1 else Raised e)"
    using body r
    by (cases "first_raise w (init_plan s)")
       (auto simp: try_except_Exception_def emit_def ret_def)
  finally show ?thesis using True by (simp add: prologue_def)
qed


lemma run_early:
  assumes "first_raise w prologue = Some (f, e)"
  shows "run_result s w = Raised e"
  using assms
  by (cases "outcome_of w SetupLogging"; cases "outcome_of w Mkdir"; cases "outcome_of w WriteText";
      simp add: run_result_def run_def write_settings_snapshot_def stmt_defs prologue_def)



lemma contained_if_all_Exception:
  "(\<And>f e. outcome_of w f = Raises e \<Longrightarrow> is_Exception e) \<Longrightarrow> contained w"
  by (simp add: contained_def shutdown_ops_def split: outcome.splits)

text \<open>
  Claim C1, as amended. The \<^verbatim>\<open>finally\<close> suite has four guarded blocks, not five: the stop
  signal of the detector and the join of its thread share the first one. From every frame
  (every combination of present handles), when the shutdown operations raise nothing but
  instances of \<^verbatim>\<open>Exception\<close>, teardown completes normally and attempts, in this order: the stop
  signal if the detector is present; the join if the thread is present and alive and the
  stop signal, if it was sent, returned; the close of the swarm controller, of the log reader
  and of the connection, each if its handle is present. So a failure in one block never skips
  another block, and a failure of the stop signal skips the join and nothing else.
\<close>

theorem teardown_blocks_independent:
  "contained w \<Longrightarrow>
     fst (teardown w \<sigma>) = Normal
   \<and> teardown_calls w \<sigma> =
       (if detector \<sigma> \<noteq> None then [DetectorStop] else [])
       @ (if detector_thread \<sigma> \<noteq> None \<and> is_alive w \<sigma>
             \<and> (detector \<sigma> = None \<or> outcome_of w DetectorStop = Returns)
          then [ThreadJoin] else [])
       @ (if locals.swarm \<sigma> \<noteq> None then [SwarmClose] else [])
       @ (if drone_logs \<sigma> \<noteq> None then [DroneLogsClose] else [])
       @ (if drone \<sigma> \<noteq> None then [DroneClose] else [])"
  using teardown_char [of w \<sigma>] by blast

theorem teardown_blocks_independent_witness:
  "contained (fails env_ok SwarmClose (OtherException ''link lost''))
   \<and> fst (teardown (fails env_ok SwarmClose (OtherException ''link lost'')) all_built) = Normal
   \<and> teardown_calls (fails env_ok SwarmClose (OtherException ''link lost'')) all_built
       = [DetectorStop, ThreadJoin, SwarmClose, DroneLogsClose, DroneClose]"
proof -
  have c: "contained (fails env_ok SwarmClose (OtherException ''link lost''))"
    by (simp add: contained_def shutdown_ops_def fails_def env_ok_def)
  show ?thesis
    using teardown_blocks_independent [OF c, of all_built] c
    by (simp add: all_built_def is_alive_def fails_def env_ok_def)
qed

text \<open>
  Claim C1 as stated fails: with every handle present and the thread alive, an
  \<^verbatim>\<open>Exception\<close> from the detector's stop signal is contained, and the join is not attempted.
\<close>

theorem teardown_stop_failure_skips_join:
  "detector_thread all_built = Some Thread
   \<and> is_alive (fails env_ok DetectorStop (OtherException ''stop failed'')) all_built
   \<and> ThreadJoin \<in> set (teardown_calls env_ok all_built)
   \<and> ThreadJoin \<notin> set (teardown_calls (fails env_ok DetectorStop (OtherException ''stop failed'')) all_built)"
proof -
  have c: "contained (fails env_ok DetectorStop (OtherException ''stop failed''))"
    by (simp add: contained_def shutdown_ops_def fails_def env_ok_def)
  have c': "contained env_ok"
    by (simp add: contained_def shutdown_ops_def env_ok_def)
  show ?thesis
    using teardown_char(2) [OF c, of all_built] teardown_char(2) [OF c', of all_built]
    by (simp add: all_built_def is_alive_def fails_def env_ok_def)
qed

text \<open>
  Claim C2, as amended. When logging is set up and the snapshot is written, and the
  collaborators raise nothing but instances of \<^verbatim>\<open>Exception\<close>, \<^verbatim>\<open>run\<close> returns: 0 for a dry run
  or when no call of the \<^verbatim>\<open>try\<close> suite raises, 1 otherwise. An exception of the prologue
  (\<^verbatim>\<open>_setup_logging\<close>, \<^verbatim>\<open>mkdir\<close>, \<^verbatim>\<open>write_text\<close>) is outside the \<^verbatim>\<open>try\<close> and leaves \<^verbatim>\<open>run\<close> as it is.
\<close>

theorem run_contains_init_and_loop_failures:
  "(first_raise w prologue = None
      \<and> (\<forall>g x. outcome_of w g = Raises x \<longrightarrow> is_Exception x)
      \<longrightarrow> run_result s w
            = Return (if Settings.dry_run s \<or> first_raise w (init_plan s) = None then 0 else 1))
   \<and> (first_raise w prologue = Some (f, e) \<longrightarrow> run_result s w = Raised e)"
proof (intro conjI impI)
  assume h: "first_raise w prologue = None
      \<and> (\<forall>g x. outcome_of w g = Raises x \<longrightarrow> is_Exception x)"
  then have c: "contained w" using contained_if_all_Exception by blast
  show "run_result s w
          = Return (if Settings.dry_run s \<or> first_raise w (init_plan s) = None then 0 else 1)"
  proof (cases "first_raise w (init_plan s)")
    case None
    then show ?thesis using h by (simp add: run_result_eq [OF c])
  next
    case (Some p)
    obtain g x where p: "p = (g, x)" by (cases p)
    have "outcome_of w g = Raises x" using first_raise_SomeD Some p by blast
    then have "is_Exception x" using h by blast
    then show ?thesis using h Some p by (simp add: run_result_eq [OF c])
  qed
next
  assume "first_raise w prologue = Some (f, e)"
  then show "run_result s w = Raised e" by (rule run_early)
qed

theorem run_contains_init_and_loop_failures_witness:
  "first_raise (fails env_ok NewDetectorRT (OtherException ''no camera'')) prologue = None
   \<and> run_result (settings_ex ''swarm'' False True) (fails env_ok NewDetectorRT (OtherException ''no camera''))
       = Return 1
   \<and> run_result (settings_ex ''swarm'' False True) env_ok = Return 0
   \<and> run_result (settings_ex ''swarm'' False True) (fails env_ok WriteText (OtherException ''disk full''))
       = Raised (OtherException ''disk full'')"
proof -
  have a: "\<forall>g x. outcome_of (fails env_ok NewDetectorRT (OtherException ''no camera'')) g = Raises x
             \<longrightarrow> is_Exception x"
    by (simp add: fails_def env_ok_def)
  have b: "\<forall>g x. outcome_of env_ok g = Raises x \<longrightarrow> is_Exception x"
    by (simp add: env_ok_def)
  show ?thesis
    using run_contains_init_and_loop_failures
            [of "fails env_ok NewDetectorRT (OtherException ''no camera'')" "settings_ex ''swarm'' False True"]
          run_contains_init_and_loop_failures [of env_ok "settings_ex ''swarm'' False True"]
          run_contains_init_and_loop_failures
            [of "fails env_ok WriteText (OtherException ''disk full'')" _ WriteText
                "OtherException ''disk full''"]
          a b
    by (simp add: fails_def env_ok_def settings_ex_def init_plan_def prologue_def)
qed

text \<open>
  Claim C2 as stated fails: the snapshot is written before the \<^verbatim>\<open>try\<close> statement, so a
  failure to create the logs directory leaves \<^verbatim>\<open>run\<close> as an exception, also in a dry run.
\<close>

theorem run_snapshot_failure_propagates:
  "run_result (settings_ex ''udp'' True False) (fails env_ok Mkdir (OtherException ''PermissionError''))
     = Raised (OtherException ''PermissionError'')"
  by (rule run_early [where f = Mkdir]) (simp add: fails_def env_ok_def prologue_def)

















end
